theory Spec2Isabelle
  imports Main "HOL-Library.Sublist"
begin

section \<open>Data model of the chat controller\<close>

text \<open>
  The controller component \<open>EmpatheticChatbot\<close> keeps its data in React state hooks and
  refs. The model collects them in one record and turns every handler into a function
  from state to state. Calls that leave the component (toasts, network calls, timers,
  the mutation queue) are appended to an effect log in the order the handler issues them.

  Two fields stand for identities. \<open>pendingStamp\<close> counts the objects that were stored
  as pending message: every \<open>setPendingMessage({...})\<close> stores a new object, so a hook
  that depends on \<open>pendingMessage\<close> sees a change even when the content is the same.
  \<open>retryTimeout\<close> stands for the handle in \<open>retryTimeoutRef\<close>: the position in the
  timer queue of the timer it denotes, or \<open>None\<close> when the ref is empty or its timer is
  no longer pending (clearing such a handle does nothing).
\<close>

datatype role = User | Assistant

record Message =
  msg_id :: string
  role :: role
  content :: string
  image_url :: "string option"
  created_at :: string

record File =
  file_name :: string
  file_bytes :: "nat list"

record pending =
  message :: string
  imageFile :: "File option"

datatype connection_status = Connected | Disconnected | Reconnecting

datatype subscription_status = Active | Inactive | Error

datatype channel_status = SUBSCRIBED | CHANNEL_ERROR | TIMED_OUT | CLOSED

record chat_body =
  body_message :: string
  body_conversationId :: "string option"
  body_imageUrl :: "string option"
  body_isRetry :: bool

text \<open>
  A timer task is the closure handed to \<open>setTimeout\<close>, with the values it captured:
  the conversation id of the subscription to retry, the id of the typing placeholder to
  remove, the pending message to resend.
\<close>

datatype timer_task =
    RetrySubscription string
  | RemovePlaceholders string
  | RetryMessage pending

datatype effect =
    Toast string
  | SetPendingMessage "pending option"
  | StorageUpload string File
  | InvokeChat chat_body
  | DeleteRow string
  | InvalidateConversations
  | Mutate string "File option"
  | SetTimeout nat timer_task
  | RemoveChannel string
  | Subscribe string

record state =
  currentConversationId :: "string option"
  messages :: "Message list"
  messagesData :: "Message list option"
  messagesLoading :: bool
  connectionStatus :: connection_status
  pendingMessage :: "pending option"
  pendingStamp :: nat
  subscriptionStatus :: subscription_status
  isDeletingConversation :: bool
  realtimeChannel :: "string option"
  retryCount :: nat
  retryTimeout :: "nat option"
  timers :: "(nat \<times> timer_task) list"
  localStorage :: "string option"
  navigatorOnLine :: bool
  channelThrows :: bool
  effects :: "effect list"

definition MAX_RETRIES :: nat where
  "MAX_RETRIES = 3"

definition emit :: "effect \<Rightarrow> state \<Rightarrow> state" where
  "emit e s = s\<lparr>effects := effects s @ [e]\<rparr>"

definition toast :: "string \<Rightarrow> state \<Rightarrow> state" where
  "toast title s = emit (Toast title) s"

definition setPendingMessage :: "pending option \<Rightarrow> state \<Rightarrow> state" where
  "setPendingMessage p s =
     emit (SetPendingMessage p)
       (s\<lparr>pendingMessage := p,
          pendingStamp := (if p = None then pendingStamp s else pendingStamp s + 1)\<rparr>)"

text \<open>\<open>setTimeout(task, delay)\<close>: the timer joins the browser's queue and is logged.\<close>

definition setTimeout :: "nat \<Rightarrow> timer_task \<Rightarrow> state \<Rightarrow> state" where
  "setTimeout d t s = emit (SetTimeout d t) (s\<lparr>timers := timers s @ [(d, t)]\<rparr>)"

section \<open>Message Store updates of the realtime handlers\<close>

text \<open>
  INSERT handler, the updater passed to \<open>setMessages\<close>:
  \<^verbatim>\<open>prev.some(msg => msg.id === newMessage.id) ? prev : [...prev, newMessage]\<close>
\<close>

definition insertMessage :: "Message \<Rightarrow> Message list \<Rightarrow> Message list" where
  "insertMessage newMessage prev =
     (if list_ex (\<lambda>msg. msg_id msg = msg_id newMessage) prev then prev
      else prev @ [newMessage])"

text \<open>
  UPDATE handler:
  \<^verbatim>\<open>prev.map(msg => msg.id === updatedMessage.id ? updatedMessage : msg)\<close>
\<close>

definition updateMessage :: "Message \<Rightarrow> Message list \<Rightarrow> Message list" where
  "updateMessage updatedMessage prev =
     map (\<lambda>msg. if msg_id msg = msg_id updatedMessage then updatedMessage else msg) prev"

definition ids :: "Message list \<Rightarrow> string list" where
  "ids store = map msg_id store"

section \<open>Realtime subscription handlers\<close>

text \<open>
  \<open>setupRealtimeSubscription(conversationId)\<close>: removes the channel held in
  \<open>realtimeChannelRef\<close>, sets the subscription status to \<open>inactive\<close>, subscribes a new
  channel and stores it in the ref. A channel is identified by its conversation id.
  The field \<open>channelThrows\<close> of the state says whether the client library throws when
  the channel is created; then the \<open>catch\<close> block sets the status to \<open>error\<close> and the
  ref is left as it was.
\<close>

definition setupRealtimeSubscription :: "string \<Rightarrow> state \<Rightarrow> state" where
  "setupRealtimeSubscription conversationId s =
     (let s1 = (case realtimeChannel s of
                  Some ch \<Rightarrow> emit (RemoveChannel ch) s
                | None \<Rightarrow> s);
          s2 = s1\<lparr>subscriptionStatus := Inactive\<rparr>
      in if channelThrows s then s2\<lparr>subscriptionStatus := Error\<rparr>
         else (emit (Subscribe conversationId) s2)\<lparr>realtimeChannel := Some conversationId\<rparr>)"

text \<open>The callback of the retry timer, closed over \<open>conversationId\<close>.\<close>

definition retryTimerCallback :: "string \<Rightarrow> state \<Rightarrow> state" where
  "retryTimerCallback conversationId s =
     setupRealtimeSubscription conversationId
       (s\<lparr>retryCount := retryCount s + 1, connectionStatus := Reconnecting\<rparr>)"

text \<open>The callback passed to \<open>subscribe\<close>, closed over \<open>conversationId\<close>.\<close>

definition subscribeCallback :: "string \<Rightarrow> channel_status \<Rightarrow> state \<Rightarrow> state" where
  "subscribeCallback conversationId status s =
     (if status = SUBSCRIBED then
        s\<lparr>subscriptionStatus := Active, connectionStatus := Connected\<rparr>
      else if status = CHANNEL_ERROR then
        (let s1 = s\<lparr>subscriptionStatus := Error\<rparr> in
         if retryCount s1 < MAX_RETRIES then
           (let delayMs = 2 ^ retryCount s1 * 1000;
                s2 = setTimeout delayMs (RetrySubscription conversationId) s1
            in s2\<lparr>retryTimeout := Some (length (timers s1))\<rparr>)
         else toast ''Connection error'' s1)
      else s)"

text \<open>The INSERT and UPDATE callbacks of the channel.\<close>

definition insertCallback :: "Message \<Rightarrow> state \<Rightarrow> state" where
  "insertCallback newMessage s =
     (let s1 = s\<lparr>messages := insertMessage newMessage (messages s)\<rparr>;
          s2 = s1\<lparr>retryCount := 0\<rparr>
      in if role newMessage = Assistant then toast ''AI Response'' s2 else s2)"

definition updateCallback :: "Message \<Rightarrow> state \<Rightarrow> state" where
  "updateCallback updatedMessage s =
     s\<lparr>messages := updateMessage updatedMessage (messages s)\<rparr>"

datatype realtime_event = INSERT Message | UPDATE Message

fun applyEvent :: "state \<Rightarrow> realtime_event \<Rightarrow> state" where
  "applyEvent s (INSERT m) = insertCallback m s"
| "applyEvent s (UPDATE m) = updateCallback m s"

definition applyEvents :: "state \<Rightarrow> realtime_event list \<Rightarrow> state" where
  "applyEvents s evs = foldl applyEvent s evs"

section \<open>Online and offline events, sending, retrying\<close>

text \<open>
  \<open>sendMessageMutation.mutate\<close> hands the payload to the mutation queue of the query
  library; the mutation function runs later, as a task of its own. The call is logged as
  the effect \<open>Mutate\<close>.
\<close>

definition handleSendMessage :: "string \<Rightarrow> File option \<Rightarrow> state \<Rightarrow> state" where
  "handleSendMessage msg imgFile s =
     (if \<not> navigatorOnLine s then
        toast ''You're offline''
          (setPendingMessage (Some \<lparr>message = msg, imageFile = imgFile\<rparr>) s)
      else emit (Mutate msg imgFile) s)"

text \<open>
  \<open>handleOnlineStatus\<close> reads \<open>pendingMessage\<close>, \<open>subscriptionStatus\<close> and
  \<open>currentConversationId\<close> from the render that registered it, that is from the state at
  entry, whatever it has set in between.
\<close>

definition handleOnlineStatus :: "state \<Rightarrow> state" where
  "handleOnlineStatus s =
     (let s1 = s\<lparr>connectionStatus := Connected\<rparr>;
          s2 = (case pendingMessage s of
                  Some p \<Rightarrow>
                    setPendingMessage None
                      (handleSendMessage (message p) (imageFile p)
                         (toast ''Connection restored'' s1))
                | None \<Rightarrow> s1)
      in case currentConversationId s of
           Some c \<Rightarrow>
             (if subscriptionStatus s = Error \<and> c \<noteq> []
              then setupRealtimeSubscription c s2 else s2)
         | None \<Rightarrow> s2)"

definition handleOfflineStatus :: "state \<Rightarrow> state" where
  "handleOfflineStatus s = toast ''Connection lost'' (s\<lparr>connectionStatus := Disconnected\<rparr>)"

text \<open>The browser flips \<open>navigator.onLine\<close> and then dispatches the event.\<close>

definition browserOnline :: "state \<Rightarrow> state" where
  "browserOnline s = handleOnlineStatus (s\<lparr>navigatorOnLine := True\<rparr>)"

definition browserOffline :: "state \<Rightarrow> state" where
  "browserOffline s = handleOfflineStatus (s\<lparr>navigatorOnLine := False\<rparr>)"

text \<open>
  \<open>handleRetryMessage\<close>, with the pending message of the render it was created in as
  an argument (the click handler sees the current one, the timer of
  \<open>handleForceReconnect\<close> the one it captured).
\<close>

definition handleRetryMessage :: "pending option \<Rightarrow> state \<Rightarrow> state" where
  "handleRetryMessage captured s =
     (case captured of
        Some messageToRetry \<Rightarrow>
          handleSendMessage (message messageToRetry) (imageFile messageToRetry)
            (setPendingMessage None s)
      | None \<Rightarrow> s)"

definition handleForceReconnect :: "state \<Rightarrow> state" where
  "handleForceReconnect s =
     (let s1 = s\<lparr>connectionStatus := Reconnecting\<rparr>;
          s2 = (case currentConversationId s of
                  Some c \<Rightarrow> if c \<noteq> [] then setupRealtimeSubscription c s1 else s1
                | None \<Rightarrow> s1)
      in case pendingMessage s of
           Some p \<Rightarrow> setTimeout 1000 (RetryMessage p) s2
         | None \<Rightarrow> s2)"

section \<open>The send mutation\<close>

text \<open>Decimal rendering of a number inside a template literal.\<close>

definition digit :: "nat \<Rightarrow> char" where
  "digit d = char_of (d + of_char CHR ''0'')"

fun decimal :: "nat \<Rightarrow> string" where
  "decimal n = (if 10 \<le> n then decimal (n div 10) else []) @ [digit (n mod 10)]"

declare decimal.simps [simp del]

text \<open>\<open>imageFile.name.split('.').pop()\<close>: what follows the last dot, or the whole name.\<close>

definition fileExt :: "string \<Rightarrow> string" where
  "fileExt name = rev (takeWhile (\<lambda>c. c \<noteq> CHR ''.'') (rev name))"

record chat_data =
  data_response :: string
  data_conversationId :: "string option"

text \<open>
  What the outside world answers during one run of the mutation function: the clock
  readings, the outcome of the upload, the public URL, and the outcome of the responder
  invocation (\<open>Inl\<close> the error message, \<open>Inr\<close> the data).
\<close>

record send_env =
  uploadNow :: nat
  uploadError :: bool
  publicUrl :: string
  optimisticNow :: nat
  optimisticIso :: string
  tempNow :: nat
  tempIso :: string
  invokeResult :: "string + chat_data"

text \<open>The \<open>catch\<close> block of the mutation function: a toast, then the error is rethrown.\<close>

definition catchBlock :: "string \<Rightarrow> state \<Rightarrow> state \<times> (string + chat_data)" where
  "catchBlock err s = (toast ''Message failed to send'' s, Inl err)"

definition optimisticUserMsg :: "send_env \<Rightarrow> string \<Rightarrow> string option \<Rightarrow> Message" where
  "optimisticUserMsg env msg imageUrl =
     \<lparr>msg_id = ''optimistic-user-'' @ decimal (optimisticNow env), role = User,
      content = msg, image_url = imageUrl, created_at = optimisticIso env\<rparr>"

definition tempMessageId :: "send_env \<Rightarrow> string" where
  "tempMessageId env = ''temp-'' @ decimal (tempNow env)"

definition tempMessage :: "send_env \<Rightarrow> Message" where
  "tempMessage env =
     \<lparr>msg_id = tempMessageId env, role = Assistant, content = [], image_url = None,
      created_at = tempIso env\<rparr>"

text \<open>The part of the \<open>try\<close> block after the optional upload.\<close>

definition sendOptimistic ::
  "send_env \<Rightarrow> string \<Rightarrow> string option \<Rightarrow> state \<Rightarrow> state \<times> (string + chat_data)" where
  "sendOptimistic env msg imageUrl s =
     (let s1 = s\<lparr>messages := messages s @ [optimisticUserMsg env msg imageUrl]\<rparr>;
          s2 = s1\<lparr>messages := messages s1 @ [tempMessage env]\<rparr>;
          s3 = emit (InvokeChat \<lparr>body_message = msg,
                                  body_conversationId = currentConversationId s,
                                  body_imageUrl = imageUrl, body_isRetry = False\<rparr>) s2
      in case invokeResult env of
           Inl err \<Rightarrow> catchBlock err s3
         | Inr data \<Rightarrow>
             (setTimeout 500 (RemovePlaceholders (tempMessageId env))
                (setPendingMessage None s3), Inr data))"

definition mutationFn ::
  "send_env \<Rightarrow> string \<Rightarrow> File option \<Rightarrow> state \<Rightarrow> state \<times> (string + chat_data)" where
  "mutationFn env msg imgFile s =
     (let s1 = setPendingMessage (Some \<lparr>message = msg, imageFile = imgFile\<rparr>) s
      in case imgFile of
           Some f \<Rightarrow>
             (let fileName = decimal (uploadNow env) @ ''.'' @ fileExt (file_name f);
                  s2 = emit (StorageUpload fileName f) s1
              in if uploadError env then catchBlock ''Failed to upload image'' s2
                 else sendOptimistic env msg (Some (publicUrl env)) s2)
         | None \<Rightarrow> sendOptimistic env msg None s1)"

text \<open>The timer started on success: it filters the placeholders out of the store.\<close>

definition removePlaceholders :: "string \<Rightarrow> state \<Rightarrow> state" where
  "removePlaceholders tempId s =
     s\<lparr>messages := filter (\<lambda>msg. msg_id msg \<noteq> tempId \<and> \<not> prefix ''optimistic-'' (msg_id msg))
                          (messages s)\<rparr>"

text \<open>
  The effect that persists the active conversation id: the id is stored when it is
  truthy and removed otherwise.
\<close>

definition setCurrentConversationId :: "string option \<Rightarrow> state \<Rightarrow> state" where
  "setCurrentConversationId c s =
     s\<lparr>currentConversationId := c,
       localStorage := (case c of Some i \<Rightarrow> if i \<noteq> [] then Some i else None | None \<Rightarrow> None)\<rparr>"

definition onSuccessSend :: "chat_data \<Rightarrow> state \<Rightarrow> state" where
  "onSuccessSend data s =
     emit InvalidateConversations
       (case data_conversationId data of
          Some c \<Rightarrow>
            (if c \<noteq> [] \<and> Some c \<noteq> currentConversationId s
             then setCurrentConversationId (Some c) s else s)
        | None \<Rightarrow> s)"

definition onErrorSend :: "string \<Rightarrow> state \<Rightarrow> state" where
  "onErrorSend err s = (if navigatorOnLine s then toast ''Error'' s else s)"

definition sendMessageMutation :: "send_env \<Rightarrow> string \<Rightarrow> File option \<Rightarrow> state \<Rightarrow> state" where
  "sendMessageMutation env msg imgFile s =
     (case mutationFn env msg imgFile s of
        (s', Inr data) \<Rightarrow> onSuccessSend data s'
      | (s', Inl err) \<Rightarrow> onErrorSend err s')"

section \<open>Deleting the active conversation\<close>

text \<open>
  \<open>deleteConversationMutation\<close>: the mutation function followed by \<open>onSuccess\<close> or
  \<open>onError\<close>. The argument is the answer of the persistence service: \<open>Some\<close> its
  error message, or \<open>None\<close>. Without an active conversation the mutation function
  returns before any call, which counts as success.
\<close>

definition onSuccessDelete :: "state \<Rightarrow> state" where
  "onSuccessDelete s =
     (let s1 = toast ''Success'' s;
          s2 = s1\<lparr>currentConversationId := None, messages := []\<rparr>;
          s3 = s2\<lparr>localStorage := None\<rparr>;
          s4 = emit InvalidateConversations s3
      in s4\<lparr>isDeletingConversation := False\<rparr>)"

definition onErrorDelete :: "string \<Rightarrow> state \<Rightarrow> state" where
  "onErrorDelete err s = (toast ''Error'' s)\<lparr>isDeletingConversation := False\<rparr>"

definition deleteConversationMutation :: "string option \<Rightarrow> state \<Rightarrow> state" where
  "deleteConversationMutation deleteError s =
     (case currentConversationId s of
        None \<Rightarrow> onSuccessDelete s
      | Some c \<Rightarrow>
          (if c = [] then onSuccessDelete s
           else
             (let s1 = s\<lparr>isDeletingConversation := True\<rparr>;
                  s2 = emit (DeleteRow c) s1
              in case deleteError of
                   Some err \<Rightarrow> onErrorDelete err s2
                 | None \<Rightarrow> onSuccessDelete s2)))"

section \<open>Effects that follow a render\<close>

text \<open>
  An effect hook runs its body after a render in which one of its dependencies differs
  from the previous render. The body reads the values of the render it belongs to
  (\<open>r\<close>); what it sets goes to the current state (\<open>s\<close>).

  The hook that copies the fetched messages into the Message Store, dependencies
  \<open>[messagesData, currentConversationId]\<close>:
\<close>

definition syncMessagesEffect :: "state \<Rightarrow> state \<Rightarrow> state \<Rightarrow> state" where
  "syncMessagesEffect prev r s =
     (if (messagesData prev, currentConversationId prev) \<noteq> (messagesData r, currentConversationId r)
      then (case messagesData r of
              Some ms \<Rightarrow> s\<lparr>messages := ms\<rparr>
            | None \<Rightarrow>
                (if currentConversationId r = None \<or> currentConversationId r = Some []
                 then s\<lparr>messages := []\<rparr> else s))
      else s)"

text \<open>
  The body of the hook that checks for a missing reply: the toast and the invocation of
  the responder with the last message and the replay flag.
\<close>

definition checkMissingResponse :: "state \<Rightarrow> state \<Rightarrow> state" where
  "checkMissingResponse r s =
     (case messagesData r of
        None \<Rightarrow> s
      | Some fetched \<Rightarrow>
          (if \<not> messagesLoading r \<and> length (messages r) > 0 then
             (let msgs = messages r; lastUserMsg = last msgs in
              if role lastUserMsg = User then
                emit (InvokeChat \<lparr>body_message = content lastUserMsg,
                                   body_conversationId = currentConversationId r,
                                   body_imageUrl = image_url lastUserMsg,
                                   body_isRetry = True\<rparr>)
                  (toast ''Retrieving AI response'' s)
              else s)
           else s))"

text \<open>
  Its dependencies are
  \<open>[messagesData, currentConversationId, messagesLoading, messages, toast]\<close>; the
  function \<open>toast\<close> never changes.
\<close>

definition recoveryDeps ::
  "state \<Rightarrow> Message list option \<times> string option \<times> bool \<times> Message list" where
  "recoveryDeps s = (messagesData s, currentConversationId s, messagesLoading s, messages s)"

definition recoveryEffect :: "state \<Rightarrow> state \<Rightarrow> state \<Rightarrow> state" where
  "recoveryEffect prev r s =
     (if recoveryDeps prev \<noteq> recoveryDeps r then checkMissingResponse r s else s)"

text \<open>
  \<open>commit prev r\<close>: the effects after the render of state \<open>r\<close>, the previous render
  having shown \<open>prev\<close>. When the first hook has replaced the Message Store, a second
  render follows, in which only the dependencies of the second hook have changed.
\<close>

definition commit :: "state \<Rightarrow> state \<Rightarrow> state" where
  "commit prev r =
     (let s1 = syncMessagesEffect prev r r;
          s2 = recoveryEffect prev r s1
      in if messages s2 \<noteq> messages r then recoveryEffect r s2 s2 else s2)"

text \<open>The recovery invocations in an effect log.\<close>

fun recoveryInvocations :: "effect list \<Rightarrow> chat_body list" where
  "recoveryInvocations [] = []"
| "recoveryInvocations (InvokeChat b # es) =
     (if body_isRetry b then b # recoveryInvocations es else recoveryInvocations es)"
| "recoveryInvocations (e # es) = recoveryInvocations es"

text \<open>
  The one-shot fetch of a conversation completes with the rows \<open>ms\<close>: the query result
  arrives, the component renders and its effects run.
\<close>

definition loadCompletes :: "Message list \<Rightarrow> state \<Rightarrow> state" where
  "loadCompletes ms s = commit s (s\<lparr>messagesData := Some ms, messagesLoading := False\<rparr>)"

text \<open>A realtime event arrives: the callback runs, the component renders, effects run.\<close>

definition realtimeArrives :: "realtime_event \<Rightarrow> state \<Rightarrow> state" where
  "realtimeArrives ev s = commit s (applyEvent s ev)"

section \<open>The chat input\<close>

text \<open>
  Strings are lists of code units below 256; \<open>trim\<close> removes the white space of that
  range from both ends.
\<close>

definition is_space :: "char \<Rightarrow> bool" where
  "is_space c = (of_char c \<in> {9, 10, 11, 12, 13, 32, 160 :: nat})"

definition trim :: "string \<Rightarrow> string" where
  "trim s = rev (dropWhile is_space (rev (dropWhile is_space s)))"

record input_state =
  input_message :: string
  selectedImage :: "File option"
  imagePreview :: "string option"

text \<open>
  \<open>ChatInput.handleSend\<close>: the new state of the input, and the call of
  \<open>onSendMessage\<close> it makes, if any.
\<close>

definition handleSend :: "input_state \<Rightarrow> input_state \<times> (string \<times> File option) option" where
  "handleSend st =
     (if trim (input_message st) = [] \<and> selectedImage st = None then (st, None)
      else
        (st\<lparr>input_message := [], selectedImage := None, imagePreview := None\<rparr>,
         Some (if trim (input_message st) \<noteq> [] then trim (input_message st)
               else ''Please analyze this image'',
               selectedImage st)))"

text \<open>
  The component file \<open>ChatInput.tsx\<close> holds another version of the input, the one that
  takes the property \<open>isDisabled\<close> that the controller passes. Its handler is called
  \<open>handleSendMessage\<close> and its image field \<open>imageFile\<close>; the state has the same three
  fields. It hands the composed text over as it is.
\<close>

definition handleSendMessage_input ::
  "input_state \<Rightarrow> input_state \<times> (string \<times> File option) option" where
  "handleSendMessage_input st =
     (if trim (input_message st) = [] \<and> selectedImage st = None then (st, None)
      else
        (st\<lparr>input_message := [], selectedImage := None, imagePreview := None\<rparr>,
         Some (input_message st, selectedImage st)))"

section \<open>The responder: context of the model request\<close>

record message_row =
  row_conversation_id :: string
  row_role :: string
  row_content :: string
  row_image_url :: "string option"
  row_created_at :: nat

datatype MessageContent = TextPart string | ImagePart string

datatype chat_content = Plain string | Parts "MessageContent list"

record ChatMessage =
  cm_role :: string
  cm_content :: chat_content
  cm_image_url :: "string option"

text \<open>
  The history query of the handler on the table \<open>messages\<close>:
  \<^verbatim>\<open>.eq('conversation_id', conversationId).order('created_at', { ascending: true }).limit(20)\<close>
\<close>

definition historyQuery :: "message_row list \<Rightarrow> string \<Rightarrow> message_row list" where
  "historyQuery table conversationId =
     take 20 (sort_key row_created_at
                (filter (\<lambda>r. row_conversation_id r = conversationId) table))"

definition historyMessage :: "message_row \<Rightarrow> ChatMessage" where
  "historyMessage msg =
     \<lparr>cm_role = row_role msg, cm_content = Plain (row_content msg),
      cm_image_url = (case row_image_url msg of
                        Some u \<Rightarrow> if u \<noteq> [] then Some u else None
                      | None \<Rightarrow> None)\<rparr>"

definition systemPrompt :: ChatMessage where
  "systemPrompt =
     \<lparr>cm_role = ''system'',
      cm_content = Plain
        (''You are an intelligent AI assistant with the ability to see and understand images. Your core traits:\<newline>\<newline>'' @
         ''1. IMAGE UNDERSTANDING: When provided with images, analyze them thoroughly - describe what you see, identify objects, understand context, and respond appropriately.\<newline>\<newline>'' @
         ''2. NATURAL CONVERSATION: Maintain a warm, conversational tone. Ask follow-up questions, show genuine interest, and remember context from the conversation.\<newline>\<newline>'' @
         ''3. HELPFUL ASSISTANCE: Provide practical help. Offer solutions, suggestions, and information.\<newline>\<newline>'' @
         ''Always respond with intelligence, making the user feel heard and understood.''),
      cm_image_url = None\<rparr>"

definition currentMessage :: "string \<Rightarrow> string option \<Rightarrow> ChatMessage" where
  "currentMessage msg imageUrl =
     \<lparr>cm_role = ''user'',
      cm_content = (case imageUrl of
                      Some u \<Rightarrow> if u \<noteq> [] then Parts [TextPart msg, ImagePart u] else Plain msg
                    | None \<Rightarrow> Plain msg),
      cm_image_url = None\<rparr>"

text \<open>
  The array sent to the model. \<open>historyFails\<close> says that the history query returned
  no data, in which case the history stays empty.
\<close>

definition openAIMessages ::
  "message_row list \<Rightarrow> bool \<Rightarrow> string \<Rightarrow> string option \<Rightarrow> string option \<Rightarrow> ChatMessage list" where
  "openAIMessages table historyFails msg conversationId imageUrl =
     (let history =
            (case conversationId of
               Some c \<Rightarrow>
                 (if c \<noteq> [] \<and> \<not> historyFails then map historyMessage (historyQuery table c)
                  else [])
             | None \<Rightarrow> [])
      in [systemPrompt] @ history @ [currentMessage msg imageUrl])"

text \<open>
  The window as the specification words it: the most recent \<open>n\<close> messages of the
  conversation, in the order of their creation.
\<close>

definition mostRecent :: "nat \<Rightarrow> message_row list \<Rightarrow> string \<Rightarrow> message_row list" where
  "mostRecent n table conversationId =
     (let rows = sort_key row_created_at
                   (filter (\<lambda>r. row_conversation_id r = conversationId) table)
      in drop (length rows - n) rows)"

section \<open>Events of the realtime link\<close>

text \<open>
  The hook that follows the active conversation id: without an id it removes the
  channel; with one it resets the retry counter and subscribes.
\<close>

definition subscriptionEffect :: "state \<Rightarrow> state" where
  "subscriptionEffect s =
     (case currentConversationId s of
        Some c \<Rightarrow>
          (if c \<noteq> [] then setupRealtimeSubscription c (s\<lparr>retryCount := 0\<rparr>)
           else (case realtimeChannel s of
                   Some ch \<Rightarrow> (emit (RemoveChannel ch) s)
                                \<lparr>realtimeChannel := None, subscriptionStatus := Inactive\<rparr>
                 | None \<Rightarrow> s))
      | None \<Rightarrow>
          (case realtimeChannel s of
             Some ch \<Rightarrow> (emit (RemoveChannel ch) s)
                          \<lparr>realtimeChannel := None, subscriptionStatus := Inactive\<rparr>
           | None \<Rightarrow> s))"

text \<open>The state hooks and refs as the component initialises them.\<close>

definition initialState :: "string option \<Rightarrow> bool \<Rightarrow> state" where
  "initialState stored onLine =
     \<lparr>currentConversationId = (case stored of Some i \<Rightarrow> if i \<noteq> [] then Some i else None
                                                | None \<Rightarrow> None),
      messages = [], messagesData = None, messagesLoading = False,
      connectionStatus = Connected, pendingMessage = None, pendingStamp = 0,
      subscriptionStatus = Inactive,
      isDeletingConversation = False, realtimeChannel = None, retryCount = 0,
      retryTimeout = None, timers = [], localStorage = stored, navigatorOnLine = onLine,
      channelThrows = False, effects = []\<rparr>"

definition mounted :: "string \<Rightarrow> state" where
  "mounted conversationId = subscriptionEffect (initialState (Some conversationId) True)"

text \<open>
  The clean-up of the hook that follows the active conversation id (\<open>subscriptionEffect\<close>
  is its body). It runs before the body runs again and when the component goes away:
  it removes the channel and empties the ref, so the body finds the ref empty whenever
  the conversation has changed.
\<close>

definition subscriptionCleanup :: "state \<Rightarrow> state" where
  "subscriptionCleanup s =
     (case realtimeChannel s of
        Some ch \<Rightarrow> (emit (RemoveChannel ch) s)\<lparr>realtimeChannel := None\<rparr>
      | None \<Rightarrow> s)"

text \<open>
  A timer leaves the queue, because it fires or because it is cleared. The position
  held for \<open>retryTimeoutRef\<close> follows the queue.
\<close>

definition removeTimer :: "nat \<Rightarrow> state \<Rightarrow> state" where
  "removeTimer k s =
     s\<lparr>timers := take k (timers s) @ drop (Suc k) (timers s),
       retryTimeout := (case retryTimeout s of
                          None \<Rightarrow> None
                        | Some p \<Rightarrow> if p = k then None
                                    else if k < p then Some (p - 1) else Some p)\<rparr>"

text \<open>
  The hook that registers the online and offline listeners has the dependencies
  \<open>[pendingMessage, currentConversationId, subscriptionStatus, toast]\<close>. Its clean-up
  removes the listeners (the hook registers them again at once) and clears the timer
  whose handle is in \<open>retryTimeoutRef\<close>:
  \<^verbatim>\<open>if (retryTimeoutRef.current) clearTimeout(retryTimeoutRef.current)\<close>
  The clean-up runs after every render in which one of the dependencies has changed.
\<close>

definition connectionHookDeps ::
  "state \<Rightarrow> pending option \<times> nat \<times> string option \<times> subscription_status" where
  "connectionHookDeps s =
     (pendingMessage s, pendingStamp s, currentConversationId s, subscriptionStatus s)"

definition connectionHookCleanup :: "state \<Rightarrow> state" where
  "connectionHookCleanup s =
     (case retryTimeout s of Some p \<Rightarrow> removeTimer p s | None \<Rightarrow> s)"

definition afterRender :: "state \<Rightarrow> state \<Rightarrow> state" where
  "afterRender prev s =
     (if connectionHookDeps prev \<noteq> connectionHookDeps s
      then connectionHookCleanup (commit prev s) else commit prev s)"

fun runTimer :: "timer_task \<Rightarrow> state \<Rightarrow> state" where
  "runTimer (RetrySubscription c) s = retryTimerCallback c s"
| "runTimer (RemovePlaceholders t) s = removePlaceholders t s"
| "runTimer (RetryMessage p) s = handleRetryMessage (Some p) s"

datatype event =
    ChannelStatus channel_status
  | Realtime realtime_event
  | TimerFires nat
  | BrowserOnline
  | BrowserOffline
  | ForceReconnect

text \<open>
  The handler that an event of the link runs. A status reaches the callback of the
  channel in the ref; \<open>TimerFires k\<close> takes the \<open>k\<close>-th pending timer out of the queue
  and runs it.
\<close>

fun handleEvent :: "event \<Rightarrow> state \<Rightarrow> state" where
  "handleEvent (ChannelStatus st) s =
     (case realtimeChannel s of Some c \<Rightarrow> subscribeCallback c st s | None \<Rightarrow> s)"
| "handleEvent (Realtime ev) s = applyEvent s ev"
| "handleEvent (TimerFires k) s =
     (if k < length (timers s) then runTimer (snd (timers s ! k)) (removeTimer k s) else s)"
| "handleEvent BrowserOnline s = browserOnline s"
| "handleEvent BrowserOffline s = browserOffline s"
| "handleEvent ForceReconnect s = handleForceReconnect s"

text \<open>
  One event of the link: the handler runs, the component renders, and the hooks whose
  dependencies have changed run (the two hooks on the Message Store, then the clean-up
  of the listener hook).
\<close>

definition linkStep :: "event \<Rightarrow> state \<Rightarrow> state" where
  "linkStep e s = afterRender s (handleEvent e s)"

definition run :: "event list \<Rightarrow> state \<Rightarrow> state" where
  "run evs s = foldl (\<lambda>x e. linkStep e x) s evs"

text \<open>
  \<open>n\<close> consecutive failures: a handshake error reaches the callback, then the first
  pending timer fires, if there is one.
\<close>

definition consecutiveFailures :: "nat \<Rightarrow> event list" where
  "consecutiveFailures n = concat (replicate n [ChannelStatus CHANNEL_ERROR, TimerFires 0])"

text \<open>The delays of the automatic reconnection attempts scheduled in an effect log.\<close>

fun scheduledRetries :: "effect list \<Rightarrow> nat list" where
  "scheduledRetries [] = []"
| "scheduledRetries (SetTimeout d (RetrySubscription c) # es) = d # scheduledRetries es"
| "scheduledRetries (e # es) = scheduledRetries es"

section \<open>Example values\<close>

definition mkMessage :: "string \<Rightarrow> role \<Rightarrow> string \<Rightarrow> Message" where
  "mkMessage i r c =
     \<lparr>msg_id = i, role = r, content = c, image_url = None,
      created_at = ''2025-06-21T01:45:07Z''\<rparr>"

text \<open>The mounted component showing the Message Store \<open>ms\<close> of conversation \<open>c1\<close>.\<close>

definition showing :: "Message list \<Rightarrow> state" where
  "showing ms = (mounted ''c1'')\<lparr>messages := ms, messagesData := Some ms\<rparr>"

text \<open>The send attempts (calls of \<open>mutate\<close>) in an effect log, with their payloads.\<close>

fun sendAttempts :: "effect list \<Rightarrow> (string \<times> File option) list" where
  "sendAttempts [] = []"
| "sendAttempts (Mutate msg f # es) = (msg, f) # sendAttempts es"
| "sendAttempts (e # es) = sendAttempts es"

text \<open>An environment in which the responder fails, and one in which it answers.\<close>

definition failingEnv :: send_env where
  "failingEnv =
     \<lparr>uploadNow = 1750470307000, uploadError = False,
      publicUrl = ''https://storage.example/chat-images/1750470307000.png'',
      optimisticNow = 1750470307120, optimisticIso = ''2025-06-21T01:45:07.120Z'',
      tempNow = 1750470307121, tempIso = ''2025-06-21T01:45:07.121Z'',
      invokeResult = Inl ''Failed to fetch''\<rparr>"

definition answeringEnv :: send_env where
  "answeringEnv =
     failingEnv\<lparr>invokeResult :=
       Inr \<lparr>data_response = ''Hi there'', data_conversationId = Some ''c1''\<rparr>\<rparr>"

definition examplePng :: File where
  "examplePng = \<lparr>file_name = ''cat.photo.png'', file_bytes = [137, 80, 78, 71]\<rparr>"

text \<open>
  A conversation \<open>c1\<close> of 21 stored messages, created at the times 1 to 21, and a
  freshly mounted component that is still loading.
\<close>

definition exampleRow :: "nat \<Rightarrow> message_row" where
  "exampleRow k =
     \<lparr>row_conversation_id = ''c1'', row_role = (if odd k then ''user'' else ''assistant''),
      row_content = ''message '' @ decimal k, row_image_url = None, row_created_at = k\<rparr>"

definition exampleTable :: "message_row list" where
  "exampleTable = map exampleRow [1..<22]"

definition loading :: state where
  "loading = (mounted ''c1'')\<lparr>messagesLoading := True\<rparr>"

text \<open>
  What the proofs about the link keep track of along a run, for a component without a
  pending message whose channel and active conversation are \<open>cid\<close> and whose client
  library does not throw: the subscription status, the attempt counter, the timer
  queue, the position held for \<open>retryTimeoutRef\<close>, and the retries scheduled so far.
\<close>

definition link_at ::
  "string \<Rightarrow> state \<Rightarrow> subscription_status \<Rightarrow> nat \<Rightarrow> (nat \<times> timer_task) list \<Rightarrow> nat option
     \<Rightarrow> nat list \<Rightarrow> bool" where
  "link_at cid s st c ts rt ds =
     (subscriptionStatus s = st \<and> retryCount s = c \<and> timers s = ts \<and> retryTimeout s = rt
      \<and> scheduledRetries (effects s) = ds \<and> realtimeChannel s = Some cid
      \<and> currentConversationId s = Some cid \<and> cid \<noteq> [] \<and> \<not> channelThrows s
      \<and> pendingMessage s = None)"


section \<open>Message Store: no duplicate identities\<close>

lemma ids_insertMessage:
  "ids (insertMessage m store) =
     (if msg_id m \<in> set (ids store) then ids store else ids store @ [msg_id m])"
  by (auto simp: insertMessage_def ids_def list_ex_iff intro: rev_image_eqI)

lemma ids_updateMessage: "ids (updateMessage m store) = ids store"
  by (induction store) (simp_all add: updateMessage_def ids_def)

lemma messages_insertCallback:
  "messages (insertCallback m s) = insertMessage m (messages s)"
  by (simp add: insertCallback_def Let_def toast_def emit_def)

lemma messages_updateCallback:
  "messages (updateCallback m s) = updateMessage m (messages s)"
  by (simp add: updateCallback_def)

lemma distinct_applyEvent:
  "distinct (ids (messages s)) \<Longrightarrow> distinct (ids (messages (applyEvent s ev)))"
  by (cases ev)
    (simp_all add: messages_insertCallback messages_updateCallback ids_insertMessage
      ids_updateMessage)

lemma distinct_foldl_applyEvent:
  "distinct (ids (messages s)) \<Longrightarrow> distinct (ids (messages (foldl applyEvent s evs)))"
  by (induction evs arbitrary: s) (simp_all add: distinct_applyEvent)

lemma updateMessage_absent:
  "msg_id m \<notin> set (ids store) \<Longrightarrow> updateMessage m store = store"
  by (induction store) (auto simp: updateMessage_def ids_def)

lemma updateMessage_replaces:
  assumes d: "distinct (ids store)" and i: "i < length store"
    and e: "msg_id (store ! i) = msg_id u"
  shows "updateMessage u store = store[i := u]"
proof (rule nth_equalityI)
  show "length (updateMessage u store) = length (store[i := u])"
    by (simp add: updateMessage_def)
next
  fix j assume "j < length (updateMessage u store)"
  then have j: "j < length store" by (simp add: updateMessage_def)
  show "updateMessage u store ! j = store[i := u] ! j"
  proof (cases "j = i")
    case True
    with i e show ?thesis by (simp add: updateMessage_def)
  next
    case False
    from d have dm: "distinct (map msg_id store)" by (simp add: ids_def)
    have "(map msg_id store ! j = map msg_id store ! i) = (j = i)"
      by (rule nth_eq_iff_index_eq) (use dm i j in simp_all)
    with i j False e have "msg_id (store ! j) \<noteq> msg_id u" by simp
    with j False show ?thesis by (simp add: updateMessage_def)
  qed
qed

lemma count_applyEvent:
  "count_list (ids (messages s)) x \<le> 1 \<Longrightarrow>
   count_list (ids (messages (applyEvent s ev))) x \<le> 1"
  by (cases ev)
    (simp_all add: messages_insertCallback messages_updateCallback ids_insertMessage
      ids_updateMessage)

lemma count_foldl_applyEvent:
  "count_list (ids (messages s)) x \<le> 1 \<Longrightarrow>
   count_list (ids (messages (foldl applyEvent s evs))) x \<le> 1"
proof (induction evs arbitrary: s)
  case Nil
  then show ?case by simp
next
  case (Cons e evs)
  have "count_list (ids (messages (applyEvent s e))) x \<le> 1"
    using Cons.prems by (rule count_applyEvent)
  then have "count_list (ids (messages (foldl applyEvent (applyEvent s e) evs))) x \<le> 1"
    by (rule Cons.IH)
  then show ?case by simp
qed

text \<open>
  C2. Whatever sequence of realtime INSERT and UPDATE events reaches the callbacks, an
  identity that occurs at most once in the Message Store occurs at most once
  afterwards, so a store whose identities are pairwise different (the empty store, the
  rows of a one-shot load) keeps pairwise different identities. An INSERT appends the
  message if and only if its id is not yet in the store, and otherwise leaves the store
  as it is. An UPDATE replaces the entry whose id matches, and leaves the store as it
  is when no entry matches.
\<close>

theorem C2_store_identities_distinct:
  "(count_list (ids (messages s)) x \<le> 1 \<longrightarrow>
      count_list (ids (messages (applyEvents s evs))) x \<le> 1)
   \<and> (distinct (ids (messages s)) \<longrightarrow> distinct (ids (messages (applyEvents s evs))))
   \<and> messages (applyEvent s (INSERT m)) =
       (if msg_id m \<in> set (ids (messages s)) then messages s else messages s @ [m])
   \<and> (distinct (ids (messages s)) \<and> i < length (messages s)
        \<and> msg_id (messages s ! i) = msg_id u \<longrightarrow>
        messages (applyEvent s (UPDATE u)) = (messages s)[i := u])
   \<and> (msg_id v \<notin> set (ids (messages s)) \<longrightarrow>
        messages (applyEvent s (UPDATE v)) = messages s)"
proof -
  have z: "count_list (ids (messages s)) x \<le> 1 \<longrightarrow>
      count_list (ids (messages (applyEvents s evs))) x \<le> 1"
    using count_foldl_applyEvent[of s x evs] by (simp add: applyEvents_def)
  have a: "distinct (ids (messages s)) \<longrightarrow> distinct (ids (messages (applyEvents s evs)))"
    by (simp add: applyEvents_def distinct_foldl_applyEvent)
  have b: "messages (applyEvent s (INSERT m)) =
           (if msg_id m \<in> set (ids (messages s)) then messages s else messages s @ [m])"
    by (auto simp: messages_insertCallback insertMessage_def ids_def list_ex_iff
        intro: rev_image_eqI)
  have c: "distinct (ids (messages s)) \<and> i < length (messages s)
        \<and> msg_id (messages s ! i) = msg_id u \<longrightarrow>
            messages (applyEvent s (UPDATE u)) = (messages s)[i := u]"
    by (simp add: messages_updateCallback updateMessage_replaces)
  have d: "msg_id v \<notin> set (ids (messages s)) \<longrightarrow>
            messages (applyEvent s (UPDATE v)) = messages s"
    by (simp add: messages_updateCallback updateMessage_absent)
  from z a b c d show ?thesis by blast
qed

theorem C2_store_identities_distinct_witness:
  "distinct (ids (messages (showing [mkMessage ''m1'' User ''hi'', mkMessage ''m2'' Assistant ''yo''])))
   \<and> count_list (ids (messages
        (showing [mkMessage ''m1'' User ''hi'', mkMessage ''m2'' Assistant ''yo'']))) ''m2'' \<le> 1
   \<and> count_list (ids (messages (applyEvents
        (showing [mkMessage ''m1'' User ''hi'', mkMessage ''m2'' Assistant ''yo''])
        [INSERT (mkMessage ''m2'' Assistant ''again''), INSERT (mkMessage ''m3'' User ''new''),
         UPDATE (mkMessage ''m3'' User ''edited'')]))) ''m2'' \<le> 1
   \<and> distinct (ids (messages (applyEvents
        (showing [mkMessage ''m1'' User ''hi'', mkMessage ''m2'' Assistant ''yo''])
        [INSERT (mkMessage ''m2'' Assistant ''again''), INSERT (mkMessage ''m3'' User ''new''),
         UPDATE (mkMessage ''m3'' User ''edited'')])))
   \<and> messages (applyEvent
        (showing [mkMessage ''m1'' User ''hi'', mkMessage ''m2'' Assistant ''yo''])
        (INSERT (mkMessage ''m2'' Assistant ''again''))) =
       [mkMessage ''m1'' User ''hi'', mkMessage ''m2'' Assistant ''yo'']
   \<and> messages (applyEvent
        (showing [mkMessage ''m1'' User ''hi'', mkMessage ''m2'' Assistant ''yo''])
        (UPDATE (mkMessage ''m2'' Assistant ''edited''))) =
       [mkMessage ''m1'' User ''hi'', mkMessage ''m2'' Assistant ''edited'']
   \<and> messages (applyEvent
        (showing [mkMessage ''m1'' User ''hi'', mkMessage ''m2'' Assistant ''yo''])
        (UPDATE (mkMessage ''m9'' Assistant ''lost''))) =
       [mkMessage ''m1'' User ''hi'', mkMessage ''m2'' Assistant ''yo'']"
  using C2_store_identities_distinct
    [where s = "showing [mkMessage ''m1'' User ''hi'', mkMessage ''m2'' Assistant ''yo'']"
       and x = "''m2''"
       and evs = "[INSERT (mkMessage ''m2'' Assistant ''again''),
                   INSERT (mkMessage ''m3'' User ''new''),
                   UPDATE (mkMessage ''m3'' User ''edited'')]"
       and m = "mkMessage ''m2'' Assistant ''again''" and i = 1
       and u = "mkMessage ''m2'' Assistant ''edited''"
       and v = "mkMessage ''m9'' Assistant ''lost''"]
  by (simp add: showing_def ids_def mkMessage_def)

section \<open>Reconnection with backoff\<close>

lemma error_callback_effects:
  "effects (subscribeCallback cid CHANNEL_ERROR x) =
     effects x @ [if retryCount x < 3
                  then SetTimeout (2 ^ retryCount x * 1000) (RetrySubscription cid)
                  else Toast ''Connection error'']"
  by (simp add: subscribeCallback_def MAX_RETRIES_def setTimeout_def toast_def emit_def
      Let_def)

lemma scheduledRetries_append:
  "scheduledRetries (xs @ ys) = scheduledRetries xs @ scheduledRetries ys"
  by (induction xs rule: scheduledRetries.induct) simp_all

text \<open>
  The steps of the link, one lemma for each. A handshake error that changes the
  subscription status loses its retry: the callback schedules the timer and stores its
  handle, the status change makes the component render, and the clean-up of the
  listener hook clears the timer of that handle. The queue and the counter are what
  they were before the error.
\<close>

lemma error_changes:
  "link_at cid s st c [] None ds \<Longrightarrow> st \<noteq> Error \<Longrightarrow> c < 3 \<Longrightarrow>
   link_at cid (linkStep (ChannelStatus CHANNEL_ERROR) s) Error c [] None
     (ds @ [2 ^ c * 1000])"
  by (simp add: linkStep_def afterRender_def commit_def syncMessagesEffect_def
      recoveryEffect_def recoveryDeps_def connectionHookDeps_def connectionHookCleanup_def
      removeTimer_def subscribeCallback_def MAX_RETRIES_def setTimeout_def emit_def Let_def
      scheduledRetries_append link_at_def)

text \<open>An error while the status is \<open>error\<close> already: no render, the timer stays.\<close>

lemma error_same:
  "link_at cid s Error c [] None ds \<Longrightarrow> c < 3 \<Longrightarrow>
   link_at cid (linkStep (ChannelStatus CHANNEL_ERROR) s) Error c
     [(2 ^ c * 1000, RetrySubscription cid)] (Some 0) (ds @ [2 ^ c * 1000])"
  by (simp add: linkStep_def afterRender_def commit_def syncMessagesEffect_def
      recoveryEffect_def recoveryDeps_def connectionHookDeps_def connectionHookCleanup_def
      removeTimer_def subscribeCallback_def MAX_RETRIES_def setTimeout_def emit_def Let_def
      scheduledRetries_append link_at_def)

lemma error_exhausted:
  "link_at cid s st c [] None ds \<Longrightarrow> \<not> c < 3 \<Longrightarrow>
   link_at cid (linkStep (ChannelStatus CHANNEL_ERROR) s) Error c [] None ds"
  by (simp add: linkStep_def afterRender_def commit_def syncMessagesEffect_def
      recoveryEffect_def recoveryDeps_def connectionHookDeps_def connectionHookCleanup_def
      removeTimer_def subscribeCallback_def MAX_RETRIES_def toast_def emit_def Let_def
      scheduledRetries_append link_at_def)

lemma timer_none:
  "link_at cid s st c [] None ds \<Longrightarrow>
   link_at cid (linkStep (TimerFires k) s) st c [] None ds"
  by (simp add: linkStep_def afterRender_def commit_def syncMessagesEffect_def
      recoveryEffect_def recoveryDeps_def connectionHookDeps_def link_at_def)

lemma timer_fires:
  "link_at cid s Error c [(d, RetrySubscription cid)] (Some 0) ds \<Longrightarrow>
   link_at cid (linkStep (TimerFires 0) s) Inactive (c + 1) [] None ds"
  by (simp add: linkStep_def afterRender_def commit_def syncMessagesEffect_def
      recoveryEffect_def recoveryDeps_def connectionHookDeps_def connectionHookCleanup_def
      removeTimer_def retryTimerCallback_def setupRealtimeSubscription_def emit_def Let_def
      scheduledRetries_append link_at_def)

lemma force_reconnect:
  "link_at cid s st c [] None ds \<Longrightarrow>
   link_at cid (linkStep ForceReconnect s) Inactive c [] None ds"
  by (simp add: linkStep_def afterRender_def commit_def syncMessagesEffect_def
      recoveryEffect_def recoveryDeps_def connectionHookDeps_def connectionHookCleanup_def
      handleForceReconnect_def setupRealtimeSubscription_def emit_def Let_def
      scheduledRetries_append link_at_def)

lemma subscribed:
  "link_at cid s st c [] None ds \<Longrightarrow>
   link_at cid (linkStep (ChannelStatus SUBSCRIBED) s) Active c [] None ds"
  by (simp add: linkStep_def afterRender_def commit_def syncMessagesEffect_def
      recoveryEffect_def recoveryDeps_def connectionHookDeps_def connectionHookCleanup_def
      subscribeCallback_def link_at_def)

text \<open>
  When the conversation becomes none, the clean-up has emptied the ref before the body
  of the conversation hook runs, so the body leaves the subscription status alone.
\<close>

lemma conversation_none_keeps_status:
  "currentConversationId s = None \<Longrightarrow>
   subscriptionStatus (subscriptionEffect (subscriptionCleanup s)) = subscriptionStatus s"
  by (simp add: subscriptionEffect_def subscriptionCleanup_def emit_def split: option.splits)

lemma mounted_link: "link_at ''c1'' (mounted ''c1'') Inactive 0 [] None []"
  by (simp add: link_at_def mounted_def subscriptionEffect_def initialState_def
      setupRealtimeSubscription_def emit_def Let_def)

lemma run_Cons: "run (e # evs) s = run evs (linkStep e s)"
  by (simp add: run_def)

lemma run_append: "run (xs @ ys) s = run ys (run xs s)"
  by (simp add: run_def)

lemma consecutiveFailures_add:
  "consecutiveFailures (m + n) = consecutiveFailures m @ consecutiveFailures n"
  by (simp add: consecutiveFailures_def replicate_add)

text \<open>
  Two failures in a row from a status other than \<open>error\<close>: the retry of the first is
  cleared, the retry of the second fires and subscribes again. The counter goes up by
  one, and two retries with the same delay have been scheduled.
\<close>

lemma two_failures:
  assumes "link_at cid s st c [] None ds" and "st \<noteq> Error" and "c < 3"
  shows "link_at cid (run (consecutiveFailures 2) s) Inactive (c + 1) [] None
           (ds @ [2 ^ c * 1000, 2 ^ c * 1000])"
proof -
  have e: "consecutiveFailures 2 =
      [ChannelStatus CHANNEL_ERROR, TimerFires 0, ChannelStatus CHANNEL_ERROR, TimerFires 0]"
    by (simp add: consecutiveFailures_def numeral_2_eq_2)
  note a = error_changes[OF assms]
  note b = timer_none[OF a, of 0]
  note c = error_same[OF b assms(3)]
  note d = timer_fires[OF c]
  show ?thesis using d by (simp add: e run_Cons run_def)
qed

lemma after_four_failures:
  "link_at ''c1'' (run (consecutiveFailures 4) (mounted ''c1'')) Inactive 2 [] None
     [1000, 1000, 2000, 2000]"
proof -
  have "consecutiveFailures 4 = consecutiveFailures 2 @ consecutiveFailures 2"
    using consecutiveFailures_add[of 2 2] by simp
  then show ?thesis
    using two_failures[OF two_failures[OF mounted_link]]
    by (simp add: run_append numeral_2_eq_2)
qed

lemma after_six_failures:
  "link_at ''c1'' (run (consecutiveFailures 6) (mounted ''c1'')) Inactive 3 [] None
     [1000, 1000, 2000, 2000, 4000, 4000]"
proof -
  have "consecutiveFailures 6 = consecutiveFailures 4 @ consecutiveFailures 2"
    using consecutiveFailures_add[of 4 2] by simp
  then show ?thesis
    using two_failures[OF after_four_failures] by (simp add: run_append)
qed

lemma after_seven_failures:
  "link_at ''c1'' (run (consecutiveFailures 7) (mounted ''c1'')) Error 3 [] None
     [1000, 1000, 2000, 2000, 4000, 4000]"
proof -
  have e: "consecutiveFailures 7 =
      consecutiveFailures 6 @ [ChannelStatus CHANNEL_ERROR, TimerFires 0]"
    using consecutiveFailures_add[of 6 1] by (simp add: consecutiveFailures_def)
  have "link_at ''c1''
          (linkStep (TimerFires 0)
             (linkStep (ChannelStatus CHANNEL_ERROR)
                (run (consecutiveFailures 6) (mounted ''c1''))))
          Error 3 [] None [1000, 1000, 2000, 2000, 4000, 4000]"
    by (rule timer_none[OF error_exhausted[OF after_six_failures]]) simp
  then show ?thesis by (simp add: e run_append run_Cons run_def)
qed

lemma after_first_failure:
  "link_at ''c1'' (run [ChannelStatus CHANNEL_ERROR] (mounted ''c1'')) Error 0 [] None [1000]"
  using error_changes[OF mounted_link] by (simp add: run_def)

lemma after_reconnect_and_handshake:
  "link_at ''c1''
     (run (consecutiveFailures 4 @ [ForceReconnect, ChannelStatus SUBSCRIBED])
        (mounted ''c1'')) Active 2 [] None [1000, 1000, 2000, 2000]"
  using subscribed[OF force_reconnect[OF after_four_failures]]
  by (simp add: run_append run_Cons run_def)

lemma failure_after_handshake:
  "link_at ''c1''
     (run (consecutiveFailures 4 @
           [ForceReconnect, ChannelStatus SUBSCRIBED, ChannelStatus CHANNEL_ERROR])
        (mounted ''c1'')) Error 2 [] None [1000, 1000, 2000, 2000, 4000]"
proof -
  have "link_at ''c1''
     (linkStep (ChannelStatus CHANNEL_ERROR)
        (run (consecutiveFailures 4 @ [ForceReconnect, ChannelStatus SUBSCRIBED])
           (mounted ''c1''))) Error 2 [] None ([1000, 1000, 2000, 2000] @ [2 ^ 2 * 1000])"
    by (rule error_changes[OF after_reconnect_and_handshake]) simp_all
  then show ?thesis by (simp add: run_def)
qed

text \<open>
  C1 does not hold of the code. The component is mounted for the conversation \<open>c1\<close>
  and the first subscribe attempt fails with one handshake error: the callback
  schedules the retry after 1 s, the status changes to \<open>error\<close>, and the clean-up that
  follows the render clears that timer. The queue is empty, so no timer fires, no
  subscription is started again, and the counter stays 0: there is no automatic
  attempt. A retry survives only when a further error reaches the callback while the
  status is already \<open>error\<close>. Over consecutive failures (an error, then the pending
  timer if there is one) the retries scheduled are therefore not the three of the
  delays 1 s, 2 s, 4 s: after four failures they are 1 s, 1 s, 2 s, 2 s with the counter
  at 2, and in the end six retries have been scheduled, of which three were cleared,
  before the seventh failure finds the counter at 3 and schedules nothing.
\<close>

theorem C1_retry_cleared_by_cleanup:
  "subscriptionStatus (run [ChannelStatus CHANNEL_ERROR] (mounted ''c1'')) = Error
   \<and> scheduledRetries (effects (run [ChannelStatus CHANNEL_ERROR] (mounted ''c1''))) = [1000]
   \<and> timers (run [ChannelStatus CHANNEL_ERROR] (mounted ''c1'')) = []
   \<and> retryCount (run [ChannelStatus CHANNEL_ERROR] (mounted ''c1'')) = 0
   \<and> effects (run [ChannelStatus CHANNEL_ERROR, TimerFires 0] (mounted ''c1'')) =
       [Subscribe ''c1'', SetTimeout 1000 (RetrySubscription ''c1'')]
   \<and> subscriptionStatus (run (consecutiveFailures 4) (mounted ''c1'')) = Inactive
   \<and> retryCount (run (consecutiveFailures 4) (mounted ''c1'')) = 2
   \<and> scheduledRetries (effects (run (consecutiveFailures 4) (mounted ''c1''))) =
       [1000, 1000, 2000, 2000]
   \<and> subscriptionStatus (run (consecutiveFailures 7) (mounted ''c1'')) = Error
   \<and> retryCount (run (consecutiveFailures 7) (mounted ''c1'')) = 3
   \<and> scheduledRetries (effects (run (consecutiveFailures 7) (mounted ''c1''))) =
       [1000, 1000, 2000, 2000, 4000, 4000]"
proof -
  have "effects (run [ChannelStatus CHANNEL_ERROR, TimerFires 0] (mounted ''c1'')) =
       [Subscribe ''c1'', SetTimeout 1000 (RetrySubscription ''c1'')]"
    by code_simp
  then show ?thesis
    using after_first_failure after_four_failures after_seven_failures
    by (simp add: link_at_def)
qed

section \<open>What resets the attempt counter\<close>

text \<open>
  C4, as the code has it. The confirmed handshake sets the subscription status to
  \<open>active\<close> and the connection status to \<open>connected\<close> and leaves the attempt counter
  as it is. The counter is set to 0 by a received INSERT event, and by the hook that
  subscribes to the active conversation when it changes. The handshake-error callback
  goes by the counter alone: with the counter \<open>a\<close> below 3 it schedules a retry after
  \<open>2 ^ a\<close> seconds, with the counter at 3 or more it schedules nothing; so the error
  that follows an INSERT schedules the retry after 1 s again.
\<close>

theorem C4_counter_reset_on_insert:
  "retryCount (subscribeCallback cid SUBSCRIBED s) = retryCount s
   \<and> subscriptionStatus (subscribeCallback cid SUBSCRIBED s) = Active
   \<and> connectionStatus (subscribeCallback cid SUBSCRIBED s) = Connected
   \<and> retryCount (insertCallback m s) = 0
   \<and> (currentConversationId s = Some c \<and> c \<noteq> [] \<longrightarrow> retryCount (subscriptionEffect s) = 0)
   \<and> effects (subscribeCallback cid CHANNEL_ERROR (insertCallback m s)) =
       effects (insertCallback m s) @ [SetTimeout 1000 (RetrySubscription cid)]
   \<and> effects (subscribeCallback cid CHANNEL_ERROR x) =
       effects x @ [if retryCount x < MAX_RETRIES
                    then SetTimeout (2 ^ retryCount x * 1000) (RetrySubscription cid)
                    else Toast ''Connection error'']"
proof -
  have a: "retryCount (subscribeCallback cid SUBSCRIBED s) = retryCount s
         \<and> subscriptionStatus (subscribeCallback cid SUBSCRIBED s) = Active
         \<and> connectionStatus (subscribeCallback cid SUBSCRIBED s) = Connected"
    by (simp add: subscribeCallback_def)
  have b: "retryCount (insertCallback m s) = 0"
    by (simp add: insertCallback_def Let_def toast_def emit_def)
  have c: "currentConversationId s = Some c \<and> c \<noteq> [] \<longrightarrow> retryCount (subscriptionEffect s) = 0"
    by (simp add: subscriptionEffect_def setupRealtimeSubscription_def Let_def emit_def
        split: option.splits)
  have d: "effects (subscribeCallback cid CHANNEL_ERROR (insertCallback m s)) =
       effects (insertCallback m s) @ [SetTimeout 1000 (RetrySubscription cid)]"
    using b by (simp add: error_callback_effects)
  have e: "effects (subscribeCallback cid CHANNEL_ERROR x) =
       effects x @ [if retryCount x < MAX_RETRIES
                    then SetTimeout (2 ^ retryCount x * 1000) (RetrySubscription cid)
                    else Toast ''Connection error'']"
    by (simp add: error_callback_effects MAX_RETRIES_def)
  from a b c d e show ?thesis by blast
qed

text \<open>
  The theorem at the state that four consecutive failures leave behind, where the
  counter is 2: the confirmed handshake keeps the 2, the INSERT and the conversation
  hook put 0 in its place, and the error after the INSERT schedules the retry after 1 s.
\<close>

theorem C4_counter_reset_on_insert_witness:
  "retryCount (run (consecutiveFailures 4) (mounted ''c1'')) = 2
   \<and> currentConversationId (run (consecutiveFailures 4) (mounted ''c1'')) = Some ''c1''
   \<and> retryCount (subscribeCallback ''c1'' SUBSCRIBED
                   (run (consecutiveFailures 4) (mounted ''c1''))) = 2
   \<and> retryCount (insertCallback (mkMessage ''m1'' Assistant ''hi'')
                   (run (consecutiveFailures 4) (mounted ''c1''))) = 0
   \<and> retryCount (subscriptionEffect (run (consecutiveFailures 4) (mounted ''c1''))) = 0
   \<and> effects (subscribeCallback ''c1'' CHANNEL_ERROR
                (insertCallback (mkMessage ''m1'' Assistant ''hi'')
                   (run (consecutiveFailures 4) (mounted ''c1'')))) =
       effects (insertCallback (mkMessage ''m1'' Assistant ''hi'')
                  (run (consecutiveFailures 4) (mounted ''c1'')))
         @ [SetTimeout 1000 (RetrySubscription ''c1'')]"
proof -
  have r: "retryCount (run (consecutiveFailures 4) (mounted ''c1'')) = 2"
    using after_four_failures by (simp add: link_at_def)
  have h: "currentConversationId (run (consecutiveFailures 4) (mounted ''c1'')) = Some ''c1''"
    using after_four_failures by (simp add: link_at_def)
  show ?thesis
    using r h
      C4_counter_reset_on_insert
        [where s = "run (consecutiveFailures 4) (mounted ''c1'')" and cid = "''c1''"
           and c = "''c1''" and m = "mkMessage ''m1'' Assistant ''hi''"
           and x = "run (consecutiveFailures 4) (mounted ''c1'')"]
    by (simp add: MAX_RETRIES_def)
qed

text \<open>
  The claim as it is worded fails. After four consecutive failures the counter is 2;
  the user reconnects and the handshake is confirmed: the status is \<open>active\<close> and the
  counter is still 2, not 0, so the next handshake error schedules its retry after
  4 s, the third delay of the old budget, and not after the 1 s of a fresh one.
\<close>

theorem C4_subscribed_keeps_counter:
  "subscriptionStatus
     (run (consecutiveFailures 4 @ [ForceReconnect, ChannelStatus SUBSCRIBED])
        (mounted ''c1'')) = Active
   \<and> retryCount
     (run (consecutiveFailures 4 @ [ForceReconnect, ChannelStatus SUBSCRIBED])
        (mounted ''c1'')) = 2
   \<and> scheduledRetries (effects
     (run (consecutiveFailures 4 @ [ForceReconnect, ChannelStatus SUBSCRIBED])
        (mounted ''c1''))) = [1000, 1000, 2000, 2000]
   \<and> scheduledRetries (effects
     (run (consecutiveFailures 4 @
           [ForceReconnect, ChannelStatus SUBSCRIBED, ChannelStatus CHANNEL_ERROR])
        (mounted ''c1''))) = [1000, 1000, 2000, 2000, 4000]"
  using after_reconnect_and_handshake failure_after_handshake
  by (simp add: link_at_def)

section \<open>The send mutation: Pending Send and placeholders\<close>

lemma mutationFn_effects:
  "\<exists>rest. effects (fst (mutationFn env msg f s)) =
     effects s @ SetPendingMessage (Some \<lparr>message = msg, imageFile = f\<rparr>) # rest"
  by (simp add: mutationFn_def sendOptimistic_def catchBlock_def setPendingMessage_def
      setTimeout_def toast_def emit_def Let_def split: option.splits sum.splits)

lemma mutationFn_pending:
  "pendingMessage (fst (mutationFn env msg f s)) =
     (if isl (snd (mutationFn env msg f s)) then Some \<lparr>message = msg, imageFile = f\<rparr>
      else None)"
  by (simp add: mutationFn_def sendOptimistic_def catchBlock_def setPendingMessage_def
      setTimeout_def toast_def emit_def Let_def split: option.splits sum.splits)

lemma mutationFn_invoke_fails:
  assumes "invokeResult env = Inl err" and "f = None \<or> \<not> uploadError env"
  shows "messages (fst (mutationFn env msg f s)) =
           messages s @ [optimisticUserMsg env msg
                           (case f of None \<Rightarrow> None | Some x \<Rightarrow> Some (publicUrl env)),
                         tempMessage env]"
    and "timers (fst (mutationFn env msg f s)) = timers s"
    and "snd (mutationFn env msg f s) = Inl err"
    and "pendingMessage (fst (mutationFn env msg f s)) =
           Some \<lparr>message = msg, imageFile = f\<rparr>"
  using assms
  by (auto simp add: mutationFn_def sendOptimistic_def catchBlock_def setPendingMessage_def
      setTimeout_def toast_def emit_def Let_def split: option.splits sum.splits)

lemma mutationFn_invoke_answers:
  assumes "invokeResult env = Inr data" and "f = None \<or> \<not> uploadError env"
  shows "timers (fst (mutationFn env msg f s)) =
           timers s @ [(500, RemovePlaceholders (tempMessageId env))]"
    and "snd (mutationFn env msg f s) = Inr data"
  using assms
  by (auto simp add: mutationFn_def sendOptimistic_def catchBlock_def setPendingMessage_def
      setTimeout_def toast_def emit_def Let_def split: option.splits sum.splits)

lemma sendMessageMutation_frame:
  "pendingMessage (sendMessageMutation env msg f s) =
     pendingMessage (fst (mutationFn env msg f s))
   \<and> messages (sendMessageMutation env msg f s) = messages (fst (mutationFn env msg f s))
   \<and> timers (sendMessageMutation env msg f s) = timers (fst (mutationFn env msg f s))"
  by (simp add: sendMessageMutation_def onSuccessSend_def onErrorSend_def
      setCurrentConversationId_def toast_def emit_def
      split: prod.splits sum.splits option.splits)

text \<open>
  C5. A send attempt with the payload \<open>(msg, f)\<close> first records the payload as Pending
  Send: the record is the first thing the mutation function does, before the upload and
  before the invocation of the responder. Whenever the attempt fails, Pending Send is
  the original payload; in particular when the responder fails after the two
  placeholders were inserted. Pending Send is empty afterwards exactly when the
  attempt succeeded.
\<close>

theorem C5_pending_send_preserved:
  "(\<exists>rest. effects (fst (mutationFn env msg f s)) =
       effects s @ SetPendingMessage (Some \<lparr>message = msg, imageFile = f\<rparr>) # rest)
   \<and> (isl (snd (mutationFn env msg f s)) \<longrightarrow>
        pendingMessage (sendMessageMutation env msg f s) =
          Some \<lparr>message = msg, imageFile = f\<rparr>)
   \<and> (pendingMessage (sendMessageMutation env msg f s) = None \<longleftrightarrow>
        \<not> isl (snd (mutationFn env msg f s)))
   \<and> (invokeResult env = Inl err \<and> (f = None \<or> \<not> uploadError env) \<longrightarrow>
        snd (mutationFn env msg f s) = Inl err
      \<and> messages (sendMessageMutation env msg f s) =
          messages s @ [optimisticUserMsg env msg
                          (case f of None \<Rightarrow> None | Some x \<Rightarrow> Some (publicUrl env)),
                        tempMessage env]
      \<and> pendingMessage (sendMessageMutation env msg f s) =
          Some \<lparr>message = msg, imageFile = f\<rparr>)"
proof -
  note fr = sendMessageMutation_frame[of env msg f s]
  have a: "\<exists>rest. effects (fst (mutationFn env msg f s)) =
       effects s @ SetPendingMessage (Some \<lparr>message = msg, imageFile = f\<rparr>) # rest"
    by (rule mutationFn_effects)
  have b: "isl (snd (mutationFn env msg f s)) \<longrightarrow>
        pendingMessage (sendMessageMutation env msg f s) =
          Some \<lparr>message = msg, imageFile = f\<rparr>"
    using fr by (simp add: mutationFn_pending)
  have c: "pendingMessage (sendMessageMutation env msg f s) = None \<longleftrightarrow>
        \<not> isl (snd (mutationFn env msg f s))"
    using fr by (simp add: mutationFn_pending)
  have d: "invokeResult env = Inl err \<and> (f = None \<or> \<not> uploadError env) \<longrightarrow>
        snd (mutationFn env msg f s) = Inl err
      \<and> messages (sendMessageMutation env msg f s) =
          messages s @ [optimisticUserMsg env msg
                          (case f of None \<Rightarrow> None | Some x \<Rightarrow> Some (publicUrl env)),
                        tempMessage env]
      \<and> pendingMessage (sendMessageMutation env msg f s) =
          Some \<lparr>message = msg, imageFile = f\<rparr>"
    using fr mutationFn_invoke_fails[of env err f msg s] by simp
  from a b c d show ?thesis by blast
qed

theorem C5_pending_send_preserved_witness:
  "invokeResult failingEnv = Inl ''Failed to fetch'' \<and> \<not> uploadError failingEnv
   \<and> isl (snd (mutationFn failingEnv ''Hello'' (Some examplePng) (showing [])))
   \<and> pendingMessage (sendMessageMutation failingEnv ''Hello'' (Some examplePng) (showing [])) =
       Some \<lparr>message = ''Hello'', imageFile = Some examplePng\<rparr>
   \<and> length (messages (sendMessageMutation failingEnv ''Hello'' (Some examplePng) (showing [])))
       = 2"
  using C5_pending_send_preserved
    [of failingEnv "''Hello''" "Some examplePng" "showing []" "''Failed to fetch''"]
  by (simp add: failingEnv_def showing_def)

text \<open>
  C10. When the responder invocation fails (after an upload that succeeded, or without
  a file), the failed send leaves the Message Store with the optimistic user message
  and the empty assistant placeholder appended, and no timer has been added to the
  queue. The timer that removes them is added on the success path only.
\<close>

theorem C10_failed_send_keeps_placeholders:
  assumes "invokeResult env = Inl err" and "f = None \<or> \<not> uploadError env"
  shows "messages (sendMessageMutation env msg f s) =
           messages s @ [optimisticUserMsg env msg
                           (case f of None \<Rightarrow> None | Some x \<Rightarrow> Some (publicUrl env)),
                         tempMessage env]
       \<and> timers (sendMessageMutation env msg f s) = timers s
       \<and> (invokeResult env' = Inr data \<and> (f = None \<or> \<not> uploadError env') \<longrightarrow>
            timers (sendMessageMutation env' msg f s) =
              timers s @ [(500, RemovePlaceholders (tempMessageId env'))]
          \<and> messages (runTimer (RemovePlaceholders (tempMessageId env'))
                         (sendMessageMutation env' msg f s)) =
              filter (\<lambda>m. msg_id m \<noteq> tempMessageId env' \<and> \<not> prefix ''optimistic-'' (msg_id m))
                (messages s))"
proof -
  have a: "messages (sendMessageMutation env msg f s) =
           messages s @ [optimisticUserMsg env msg
                           (case f of None \<Rightarrow> None | Some x \<Rightarrow> Some (publicUrl env)),
                         tempMessage env]"
    using sendMessageMutation_frame[of env msg f s] mutationFn_invoke_fails(1)[OF assms]
    by simp
  have b: "timers (sendMessageMutation env msg f s) = timers s"
    using sendMessageMutation_frame[of env msg f s] mutationFn_invoke_fails(2)[OF assms]
    by simp
  have c: "timers (sendMessageMutation env' msg f s) =
              timers s @ [(500, RemovePlaceholders (tempMessageId env'))]
          \<and> messages (runTimer (RemovePlaceholders (tempMessageId env'))
                         (sendMessageMutation env' msg f s)) =
              filter (\<lambda>m. msg_id m \<noteq> tempMessageId env' \<and> \<not> prefix ''optimistic-'' (msg_id m))
                (messages s)"
    if h: "invokeResult env' = Inr data" "f = None \<or> \<not> uploadError env'"
  proof -
    have t: "timers (sendMessageMutation env' msg f s) =
              timers s @ [(500, RemovePlaceholders (tempMessageId env'))]"
      using sendMessageMutation_frame[of env' msg f s] mutationFn_invoke_answers(1)[OF h]
      by simp
    have "messages (fst (mutationFn env' msg f s)) =
            messages s @ [optimisticUserMsg env' msg
                            (case f of None \<Rightarrow> None | Some x \<Rightarrow> Some (publicUrl env')),
                          tempMessage env']"
      using h
      by (auto simp add: mutationFn_def sendOptimistic_def setPendingMessage_def
          setTimeout_def emit_def Let_def split: option.splits)
    then have "messages (runTimer (RemovePlaceholders (tempMessageId env'))
                         (sendMessageMutation env' msg f s)) =
              filter (\<lambda>m. msg_id m \<noteq> tempMessageId env' \<and> \<not> prefix ''optimistic-'' (msg_id m))
                (messages s)"
      using sendMessageMutation_frame[of env' msg f s]
      by (simp add: removePlaceholders_def optimisticUserMsg_def tempMessage_def)
    with t show ?thesis by blast
  qed
  from a b c show ?thesis by blast
qed

theorem C10_failed_send_keeps_placeholders_witness:
  "invokeResult failingEnv = Inl ''Failed to fetch''
   \<and> invokeResult answeringEnv =
       Inr \<lparr>data_response = ''Hi there'', data_conversationId = Some ''c1''\<rparr>
   \<and> messages (sendMessageMutation failingEnv ''Hello'' None (showing [])) =
       [optimisticUserMsg failingEnv ''Hello'' None, tempMessage failingEnv]
   \<and> timers (sendMessageMutation failingEnv ''Hello'' None (showing [])) = []
   \<and> timers (sendMessageMutation answeringEnv ''Hello'' None (showing [])) =
       [(500, RemovePlaceholders (tempMessageId answeringEnv))]
   \<and> messages (runTimer (RemovePlaceholders (tempMessageId answeringEnv))
                 (sendMessageMutation answeringEnv ''Hello'' None (showing []))) = []"
proof -
  have h: "invokeResult failingEnv = Inl ''Failed to fetch''"
    "None = None \<or> \<not> uploadError failingEnv"
    by (simp_all add: failingEnv_def)
  have k: "invokeResult answeringEnv =
       Inr \<lparr>data_response = ''Hi there'', data_conversationId = Some ''c1''\<rparr>"
    "\<not> uploadError answeringEnv"
    by (simp_all add: answeringEnv_def failingEnv_def)
  have t: "timers (showing []) = []" "messages (showing []) = []"
    by (simp_all add: showing_def mounted_def subscriptionEffect_def initialState_def
        setupRealtimeSubscription_def emit_def Let_def)
  show ?thesis
    using h k t
      C10_failed_send_keeps_placeholders[OF h, where env' = answeringEnv
        and data = "\<lparr>data_response = ''Hi there'', data_conversationId = Some ''c1''\<rparr>"
        and msg = "''Hello''" and s = "showing []"]
    by simp
qed

section \<open>Sending while offline and the replay on the online event\<close>

lemma sendAttempts_append:
  "sendAttempts (xs @ ys) = sendAttempts xs @ sendAttempts ys"
  by (induction xs rule: sendAttempts.induct) simp_all

lemma offline_send:
  "handleSendMessage msg f (browserOffline s) =
     s\<lparr>connectionStatus := Disconnected, navigatorOnLine := False,
       pendingMessage := Some \<lparr>message = msg, imageFile = f\<rparr>,
       pendingStamp := pendingStamp s + 1,
       effects := effects s @ [Toast ''Connection lost'',
                               SetPendingMessage (Some \<lparr>message = msg, imageFile = f\<rparr>),
                               Toast ''You're offline'']\<rparr>"
  by (simp add: handleSendMessage_def browserOffline_def handleOfflineStatus_def
      setPendingMessage_def toast_def emit_def)

lemma online_replay:
  assumes "pendingMessage x = Some \<lparr>message = msg, imageFile = f\<rparr>"
  shows "pendingMessage (browserOnline x) = None"
    and "connectionStatus (browserOnline x) = Connected"
    and "sendAttempts (effects (browserOnline x)) = sendAttempts (effects x) @ [(msg, f)]"
  using assms
  by (simp_all add: browserOnline_def handleOnlineStatus_def handleSendMessage_def
      setPendingMessage_def toast_def emit_def Let_def setupRealtimeSubscription_def
      sendAttempts_append split: option.splits)

text \<open>
  C6. The browser goes offline and the user sends \<open>Hello\<close> without an image: Pending
  Send becomes \<open>{message: Hello, imageFile: undefined}\<close>; the handlers issue two
  notices and the record of the pending message and nothing else, so no network call
  and no send attempt; the connection status is \<open>disconnected\<close>. When the online event
  fires next, exactly one send attempt is handed to the mutation, with the payload
  \<open>(Hello, undefined)\<close>, Pending Send is cleared and the status is \<open>connected\<close>.
\<close>

theorem C6_offline_send_replayed:
  "pendingMessage (handleSendMessage ''Hello'' None (browserOffline s)) =
     Some \<lparr>message = ''Hello'', imageFile = None\<rparr>
   \<and> effects (handleSendMessage ''Hello'' None (browserOffline s)) =
       effects s @ [Toast ''Connection lost'',
                    SetPendingMessage (Some \<lparr>message = ''Hello'', imageFile = None\<rparr>),
                    Toast ''You're offline'']
   \<and> connectionStatus (handleSendMessage ''Hello'' None (browserOffline s)) = Disconnected
   \<and> sendAttempts (effects (browserOnline (handleSendMessage ''Hello'' None (browserOffline s)))) =
       sendAttempts (effects s) @ [(''Hello'', None)]
   \<and> pendingMessage (browserOnline (handleSendMessage ''Hello'' None (browserOffline s))) = None
   \<and> connectionStatus (browserOnline (handleSendMessage ''Hello'' None (browserOffline s))) =
       Connected"
proof -
  let ?x = "handleSendMessage ''Hello'' None (browserOffline s)"
  have p: "pendingMessage ?x = Some \<lparr>message = ''Hello'', imageFile = None\<rparr>"
    by (simp add: offline_send)
  have e: "effects ?x = effects s @ [Toast ''Connection lost'',
                    SetPendingMessage (Some \<lparr>message = ''Hello'', imageFile = None\<rparr>),
                    Toast ''You're offline'']"
    by (simp add: offline_send)
  have c: "connectionStatus ?x = Disconnected" by (simp add: offline_send)
  have se: "sendAttempts (effects ?x) = sendAttempts (effects s)"
    by (simp add: e sendAttempts_append)
  show ?thesis using p e c se online_replay[OF p] by simp
qed

section \<open>Deleting the active conversation: all or nothing\<close>

text \<open>
  C8. With an active conversation \<open>c\<close>: when the persistence service deletes the row,
  the active conversation id becomes none, the Message Store is emptied, the stored id
  is removed and the conversation list is invalidated. When the service answers with an
  error, the user is notified and the state is what it was, but for the effect log (the
  delete call and the notice) and the progress flag, which is off; in particular the
  active id and the Message Store are unchanged and the conversation list is not
  invalidated.
\<close>

theorem C8_delete_all_or_nothing:
  assumes "currentConversationId s = Some c" and "c \<noteq> []"
  shows "currentConversationId (deleteConversationMutation None s) = None
       \<and> messages (deleteConversationMutation None s) = []
       \<and> localStorage (deleteConversationMutation None s) = None
       \<and> effects (deleteConversationMutation None s) =
           effects s @ [DeleteRow c, Toast ''Success'', InvalidateConversations]
       \<and> deleteConversationMutation (Some err) s =
           s\<lparr>isDeletingConversation := False,
             effects := effects s @ [DeleteRow c, Toast ''Error'']\<rparr>
       \<and> currentConversationId (deleteConversationMutation (Some err) s) = Some c
       \<and> messages (deleteConversationMutation (Some err) s) = messages s
       \<and> localStorage (deleteConversationMutation (Some err) s) = localStorage s"
  using assms
  by (simp add: deleteConversationMutation_def onSuccessDelete_def onErrorDelete_def
      toast_def emit_def Let_def)

theorem C8_delete_all_or_nothing_witness:
  "currentConversationId (showing [mkMessage ''m1'' User ''hi'']) = Some ''c1''
   \<and> currentConversationId
       (deleteConversationMutation None (showing [mkMessage ''m1'' User ''hi''])) = None
   \<and> messages (deleteConversationMutation None (showing [mkMessage ''m1'' User ''hi''])) = []
   \<and> currentConversationId
       (deleteConversationMutation (Some ''permission denied'')
          (showing [mkMessage ''m1'' User ''hi''])) = Some ''c1''
   \<and> messages
       (deleteConversationMutation (Some ''permission denied'')
          (showing [mkMessage ''m1'' User ''hi''])) = [mkMessage ''m1'' User ''hi'']"
proof -
  have h: "currentConversationId (showing [mkMessage ''m1'' User ''hi'']) = Some ''c1''"
    "''c1'' \<noteq> []"
    by (simp_all add: showing_def mounted_def subscriptionEffect_def initialState_def
        setupRealtimeSubscription_def emit_def Let_def)
  have m: "messages (showing [mkMessage ''m1'' User ''hi'']) = [mkMessage ''m1'' User ''hi'']"
    by (simp add: showing_def)
  show ?thesis
    using h m C8_delete_all_or_nothing[OF h, of "''permission denied''"]
    by simp
qed

section \<open>The chat input\<close>

lemma trim_empty_iff: "trim s = [] \<longleftrightarrow> list_all is_space s"
proof -
  have "trim s = [] \<longleftrightarrow> (\<forall>c\<in>set (dropWhile is_space s). is_space c)"
    by (simp add: trim_def)
  also have "\<dots> \<longleftrightarrow> dropWhile is_space s = []"
  proof
    assume a: "\<forall>c\<in>set (dropWhile is_space s). is_space c"
    show "dropWhile is_space s = []"
    proof (rule ccontr)
      assume ne: "dropWhile is_space s \<noteq> []"
      then have "\<not> is_space (hd (dropWhile is_space s))" by (rule hd_dropWhile)
      moreover from ne have "hd (dropWhile is_space s) \<in> set (dropWhile is_space s)"
        by (rule hd_in_set)
      ultimately show False using a by blast
    qed
  next
    assume "dropWhile is_space s = []"
    then show "\<forall>c\<in>set (dropWhile is_space s). is_space c"
      by (simp del: dropWhile_eq_Nil_conv)
  qed
  also have "\<dots> \<longleftrightarrow> list_all is_space s" by (simp add: list_all_iff)
  finally show ?thesis .
qed

text \<open>
  \<open>handleSend\<close>: when the composed text is empty or consists of white space only and
  an image is attached, the call of \<open>onSendMessage\<close> carries the text
  \<open>Please analyze this image\<close> and the image; when the text is empty or white space
  only and no image is attached, no call is made and the input is unchanged; any other
  text is sent trimmed.
\<close>

lemma handleSend_default_text:
  "(list_all is_space (input_message st) \<and> selectedImage st = Some f \<longrightarrow>
      snd (handleSend st) = Some (''Please analyze this image'', Some f))
   \<and> (list_all is_space (input_message st') \<and> selectedImage st' = None \<longrightarrow>
      handleSend st' = (st', None))
   \<and> (\<not> list_all is_space (input_message st'') \<longrightarrow>
      snd (handleSend st'') = Some (trim (input_message st''), selectedImage st''))"
  by (simp add: handleSend_def trim_empty_iff)

text \<open>The handler of \<open>ChatInput.tsx\<close> sends nothing either when there is neither text nor image.\<close>

lemma handleSendMessage_input_blank:
  "list_all is_space (input_message st) \<Longrightarrow> selectedImage st = None \<Longrightarrow>
   handleSendMessage_input st = (st, None)"
  by (simp add: handleSendMessage_input_def trim_empty_iff)


section \<open>Recovery of a missing reply\<close>

lemma recoveryInvocations_append:
  "recoveryInvocations (xs @ ys) = recoveryInvocations xs @ recoveryInvocations ys"
  by (induction xs rule: recoveryInvocations.induct) simp_all

text \<open>
  What the load of a conversation into an empty store does: one recovery invocation
  when the last fetched message is from the user, none otherwise.
\<close>

lemma load_recovery:
  assumes "messages s = []" and "messagesData s = None"
  shows "recoveryInvocations (effects (loadCompletes ms s)) =
     recoveryInvocations (effects s) @
       (if ms \<noteq> [] \<and> role (last ms) = User
        then [\<lparr>body_message = content (last ms),
               body_conversationId = currentConversationId s,
               body_imageUrl = image_url (last ms), body_isRetry = True\<rparr>]
        else [])"
  using assms
  by (simp add: loadCompletes_def commit_def syncMessagesEffect_def recoveryEffect_def
      recoveryDeps_def checkMissingResponse_def toast_def emit_def Let_def
      recoveryInvocations_append)

text \<open>
  C3 does not hold of the code. The check is a hook with the Message Store among its
  dependencies, so it runs again after every change of the store. Here a conversation
  is loaded whose last message is a reply: the load makes no recovery invocation. Then
  the realtime INSERT of a user message arrives (the responder stores the user's row
  before the reply): the store now ends with a user message, and the hook invokes the
  responder with the replay flag, although nothing was loaded.
\<close>

theorem C3_recovery_runs_on_store_mutation:
  "recoveryInvocations (effects
     (loadCompletes [mkMessage ''m1'' User ''hello'', mkMessage ''m2'' Assistant ''hi'']
        loading)) = []
   \<and> recoveryInvocations (effects
     (realtimeArrives (INSERT (mkMessage ''m3'' User ''and now?''))
       (loadCompletes [mkMessage ''m1'' User ''hello'', mkMessage ''m2'' Assistant ''hi'']
          loading))) =
     [\<lparr>body_message = ''and now?'', body_conversationId = Some ''c1'',
       body_imageUrl = None, body_isRetry = True\<rparr>]"
  by code_simp

section \<open>The context window of the responder\<close>

lemma openAIMessages_shape:
  "c \<noteq> [] \<Longrightarrow>
   openAIMessages table False msg (Some c) url =
     systemPrompt # map historyMessage (historyQuery table c) @ [currentMessage msg url]"
  by (simp add: openAIMessages_def)

lemma historyQuery_length: "length (historyQuery table c) \<le> 20"
  by (simp add: historyQuery_def)

text \<open>
  In a conversation of more than 20 different rows, the row that comes last in the
  order of creation is not part of the history that the query returns.
\<close>

lemma newest_row_excluded:
  assumes d: "distinct (filter (\<lambda>r. row_conversation_id r = c) table)"
    and l: "20 < length (filter (\<lambda>r. row_conversation_id r = c) table)"
  shows "last (sort_key row_created_at (filter (\<lambda>r. row_conversation_id r = c) table))
           \<notin> set (historyQuery table c)"
proof -
  let ?rows = "sort_key row_created_at (filter (\<lambda>r. row_conversation_id r = c) table)"
  have dr: "distinct (take 20 ?rows @ drop 20 ?rows)" using d by simp
  have len: "20 < length ?rows" using l by simp
  then have ne: "drop 20 ?rows \<noteq> []" by simp
  have "last ?rows = last (drop 20 ?rows)" using len by simp
  with ne have "last ?rows \<in> set (drop 20 ?rows)" using last_in_set by metis
  with dr have "last ?rows \<notin> set (take 20 ?rows)"
    unfolding distinct_append by blast
  then show ?thesis by (simp add: historyQuery_def)
qed

text \<open>
  C7 does not hold of the code. The history query orders the rows by creation time
  ascending and keeps the first 20, which are the oldest 20. For the conversation of
  21 messages created at the times 1 to 21, the context holds the messages of the
  times 1 to 20, while the most recent 20 are those of the times 2 to 21: the most
  recent prior message is left out and the oldest one is sent. The request has the
  system directive, 20 history messages and the current message.
\<close>

theorem C7_context_is_oldest_twenty:
  "length (filter (\<lambda>r. row_conversation_id r = ''c1'') exampleTable) = 21
   \<and> map row_created_at (historyQuery exampleTable ''c1'') = [1..<21]
   \<and> map row_created_at (mostRecent 20 exampleTable ''c1'') = [2..<22]
   \<and> historyMessage (exampleRow 21)
       \<notin> set (openAIMessages exampleTable False ''next'' (Some ''c1'') None)
   \<and> historyMessage (exampleRow 1)
       \<in> set (openAIMessages exampleTable False ''next'' (Some ''c1'') None)
   \<and> length (openAIMessages exampleTable False ''next'' (Some ''c1'') None) = 22
   \<and> hd (openAIMessages exampleTable False ''next'' (Some ''c1'') None) = systemPrompt"
  by code_simp


end
